theory Spec2Isabelle
  imports
    Complex_Main
    "HOL-Library.Word"
    "HOL-Library.Signed_Division"
    "HOL-Library.Log_Nat"
    "HOL-Library.Char_ord"
    "HOL-Library.List_Lexorder"
begin

section \<open>Fee parameters and fee decorators of \<^verbatim>\<open>app/feeParam.go\<close>\<close>

text \<open>
  The file \<^verbatim>\<open>app/feeParam.go\<close> holds a parameter type with its validation routine and two
  ante decorators: \<^verbatim>\<open>FeeParamDecorator\<close> (the minimum-fee check) and
  \<^verbatim>\<open>DeductFeeDecorator\<close> (the fee transfer). The repository keeps two revisions of the file;
  the later one (with \<^verbatim>\<open>FeeParams\<close> and the burn amount) is the one embedded here, and the
  body of \<^verbatim>\<open>FeeParamDecorator.AnteHandle\<close> is the same in both.

  The code is written against the Cosmos SDK. What it uses of the SDK (coins, fixed-point
  decimals, registered errors) is not part of the repository; it is modelled below after
  the SDK's own behaviour, each time under the SDK's name, and kept apart from the
  repository's functions.
\<close>

subsection \<open>Go values: results, panics, interface arguments\<close>

text \<open>A Go call either returns or panics; \<open>Panic\<close> carries the panic message.\<close>

datatype 'a go_result = Panic string | Ret 'a

definition go_bind :: "'a go_result \<Rightarrow> ('a \<Rightarrow> 'b go_result) \<Rightarrow> 'b go_result" where
  "go_bind r f = (case r of Panic m \<Rightarrow> Panic m | Ret x \<Rightarrow> f x)"

subsection \<open>SDK amounts: \<^verbatim>\<open>sdk.Int\<close> and \<^verbatim>\<open>sdk.Dec\<close>\<close>

text \<open>
  \<^verbatim>\<open>sdk.Int\<close> is a struct around a pointer to a \<^verbatim>\<open>big.Int\<close>. The zero value of the struct
  holds the \<^verbatim>\<open>nil\<close> pointer, \<open>NilInt\<close>, and a comparison that reads it panics. A struct field
  of the repository of this type can be left at the zero value, so it is an \<open>sdk_Int\<close>. The
  amount of a coin comes out of the SDK's constructors and decoders and is modelled by the
  integer it holds; the range check of the constructor (at most 255 bits) is
  \<open>NewIntFromBigInt\<close>. \<^verbatim>\<open>sdk.Dec\<close> is a fixed-point decimal with 18 places: a \<^verbatim>\<open>big.Int\<close>
  \<open>dec_i\<close> standing for \<open>dec_i / 10^18\<close>.
\<close>

datatype sdk_Int = NilInt | IntOf int

definition NewInt :: "int \<Rightarrow> sdk_Int" where
  "NewInt n = IntOf n"

text \<open>\<^verbatim>\<open>Int.GTE\<close> compares the two \<^verbatim>\<open>big.Int\<close>s, and panics when either pointer is \<^verbatim>\<open>nil\<close>.\<close>

definition Int_GTE :: "sdk_Int \<Rightarrow> sdk_Int \<Rightarrow> bool go_result" where
  "Int_GTE i i2 =
     (case i of
        NilInt \<Rightarrow> Panic ''invalid memory address or nil pointer dereference''
      | IntOf a \<Rightarrow>
          (case i2 of
             NilInt \<Rightarrow> Panic ''invalid memory address or nil pointer dereference''
           | IntOf b \<Rightarrow> Ret (a \<ge> b)))"

datatype Dec = Dec (dec_i: int)

definition precisionReuse :: int where
  "precisionReuse = 10 ^ 18"

definition fivePrecision :: int where
  "fivePrecision = precisionReuse div 2"

text \<open>\<^verbatim>\<open>big.Int.BitLen\<close>: the length of the absolute value in bits.\<close>

definition BitLen :: "int \<Rightarrow> int" where
  "BitLen x = bitlen \<bar>x\<bar>"

definition maxBitLen :: int where
  "maxBitLen = 255"

definition DecimalPrecisionBits :: int where
  "DecimalPrecisionBits = 60"

definition NewIntFromBigInt :: "int \<Rightarrow> int go_result" where
  "NewIntFromBigInt x =
     (if BitLen x > maxBitLen then Panic ''NewIntFromBigInt() out of bound'' else Ret x)"

text \<open>
  \<^verbatim>\<open>chopPrecisionAndRound\<close>: divide by \<open>10^18\<close>, rounding half to even. \<^verbatim>\<open>big.Int.QuoRem\<close>
  truncates towards zero, which is \<open>sdiv\<close> and \<open>smod\<close>.
\<close>

definition chopPrecisionAndRound_nonneg :: "int \<Rightarrow> int" where
  "chopPrecisionAndRound_nonneg d =
     (let quo = d sdiv precisionReuse; rem = d smod precisionReuse
      in if rem = 0 then quo
         else if rem < fivePrecision then quo
         else if rem > fivePrecision then quo + 1
         else if even quo then quo
         else quo + 1)"

definition chopPrecisionAndRound :: "int \<Rightarrow> int" where
  "chopPrecisionAndRound d =
     (if d < 0 then - chopPrecisionAndRound_nonneg (- d) else chopPrecisionAndRound_nonneg d)"

text \<open>\<^verbatim>\<open>sdk.NewDec(i int64)\<close>: the decimal of a whole number.\<close>

definition NewDec :: "int \<Rightarrow> Dec" where
  "NewDec n = Dec (n * precisionReuse)"

text \<open>\<^verbatim>\<open>Dec.Mul\<close>: the exact product, rounded to 18 places; panics beyond 315 bits.\<close>

definition Dec_Mul :: "Dec \<Rightarrow> Dec \<Rightarrow> Dec go_result" where
  "Dec_Mul d d2 =
     (let chopped = chopPrecisionAndRound (dec_i d * dec_i d2)
      in if BitLen chopped > maxBitLen + DecimalPrecisionBits then Panic ''Int overflow''
         else Ret (Dec chopped))"

text \<open>\<^verbatim>\<open>Dec.Ceil\<close>: the least whole decimal not below the argument.\<close>

definition Dec_Ceil :: "Dec \<Rightarrow> Dec" where
  "Dec_Ceil d =
     (let quo = dec_i d sdiv precisionReuse; rem = dec_i d smod precisionReuse
      in if rem = 0 then NewDec quo
         else if rem < 0 then NewDec quo
         else NewDec (quo + 1))"

text \<open>\<^verbatim>\<open>Dec.RoundInt\<close>: round to an \<^verbatim>\<open>sdk.Int\<close>.\<close>

definition Dec_RoundInt :: "Dec \<Rightarrow> int go_result" where
  "Dec_RoundInt d = NewIntFromBigInt (chopPrecisionAndRound (dec_i d))"

definition Dec_IsZero :: "Dec \<Rightarrow> bool" where
  "Dec_IsZero d \<longleftrightarrow> dec_i d = 0"

subsection \<open>SDK coins\<close>

datatype Coin = Coin (Denom: string) (Amount: int)

datatype DecCoin = DecCoin (DDenom: string) (DAmount: Dec)

type_synonym Coins = "Coin list"

type_synonym DecCoins = "DecCoin list"

text \<open>
  \<^verbatim>\<open>sdk.ValidateDenom\<close>: a denomination matches \<^verbatim>\<open>[a-zA-Z][a-zA-Z0-9/]{2,127}\<close>.
\<close>

definition is_letter :: "char \<Rightarrow> bool" where
  "is_letter c \<longleftrightarrow>
     (let n = (of_char c :: nat) in (65 \<le> n \<and> n \<le> 90) \<or> (97 \<le> n \<and> n \<le> 122))"

definition is_denom_char :: "char \<Rightarrow> bool" where
  "is_denom_char c \<longleftrightarrow>
     (let n = (of_char c :: nat) in is_letter c \<or> (48 \<le> n \<and> n \<le> 57) \<or> n = 47)"

definition ValidateDenom :: "string \<Rightarrow> bool" where
  "ValidateDenom d \<longleftrightarrow>
     (case d of [] \<Rightarrow> False
      | c # cs \<Rightarrow> is_letter c \<and> list_all is_denom_char cs \<and> 2 \<le> length cs \<and> length cs \<le> 127)"

text \<open>\<^verbatim>\<open>sdk.NewCoin\<close> panics on an invalid denomination and on a negative amount.\<close>

definition NewCoin :: "string \<Rightarrow> int \<Rightarrow> Coin go_result" where
  "NewCoin denom amount =
     (if \<not> ValidateDenom denom then Panic ''invalid denom''
      else if amount < 0 then Panic ''negative coin amount''
      else Ret (Coin denom amount))"

text \<open>\<^verbatim>\<open>DecCoins.IsZero\<close>, \<^verbatim>\<open>DecCoins.Empty\<close> and \<^verbatim>\<open>Coins.IsZero\<close>: loops over the entries.\<close>

fun DecCoins_IsZero :: "DecCoins \<Rightarrow> bool" where
  "DecCoins_IsZero [] = True"
| "DecCoins_IsZero (coin # coins) =
     (if \<not> Dec_IsZero (DAmount coin) then False else DecCoins_IsZero coins)"

definition DecCoins_Empty :: "DecCoins \<Rightarrow> bool" where
  "DecCoins_Empty coins \<longleftrightarrow> length coins = 0"

fun Coins_IsZero :: "Coins \<Rightarrow> bool" where
  "Coins_IsZero [] = True"
| "Coins_IsZero (coin # coins) =
     (if \<not> (Amount coin = 0) then False else Coins_IsZero coins)"

text \<open>
  \<^verbatim>\<open>Coins.Validate\<close> and \<^verbatim>\<open>Coins.IsValid\<close>: every denomination valid, every amount positive,
  denominations strictly ascending (so without duplicates). Go compares strings bytewise,
  which is the lexicographic order on character lists.
\<close>

fun Coins_Validate_rest :: "string \<Rightarrow> Coins \<Rightarrow> bool" where
  "Coins_Validate_rest lowDenom [] = True"
| "Coins_Validate_rest lowDenom (coin # coins) =
     (if \<not> ValidateDenom (Denom coin) then False
      else if Denom coin \<le> lowDenom then False
      else if \<not> (0 < Amount coin) then False
      else Coins_Validate_rest (Denom coin) coins)"

definition Coins_IsValid :: "Coins \<Rightarrow> bool" where
  "Coins_IsValid coins =
     (case coins of [] \<Rightarrow> True
      | c # cs \<Rightarrow>
          (if \<not> ValidateDenom (Denom c) then False
           else if \<not> (0 < Amount c) then False
           else Coins_Validate_rest (Denom c) cs))"

text \<open>
  \<^verbatim>\<open>Coins.AmountOf\<close>: a binary search by denomination, which panics on an invalid
  denomination; \<^verbatim>\<open>Coins.IsAnyGTE\<close> on top of it.
\<close>

function AmountOf_search :: "Coins \<Rightarrow> string \<Rightarrow> int" where
  "AmountOf_search coins denom =
     (if length coins = 0 then 0
      else if length coins = 1 then
        (if Denom (coins ! 0) = denom then Amount (coins ! 0) else 0)
      else
        (let midIdx = length coins div 2; coin = coins ! midIdx
         in if denom < Denom coin then AmountOf_search (take midIdx coins) denom
            else if denom = Denom coin then Amount coin
            else AmountOf_search (drop (midIdx + 1) coins) denom))"
  by pat_completeness auto
termination
  by (relation "measure (\<lambda>(coins, denom). length coins)") auto

declare AmountOf_search.simps [simp del]

definition AmountOf :: "Coins \<Rightarrow> string \<Rightarrow> int go_result" where
  "AmountOf coins denom =
     (if \<not> ValidateDenom denom then Panic ''invalid denom'' else Ret (AmountOf_search coins denom))"

fun IsAnyGTE_loop :: "Coins \<Rightarrow> Coins \<Rightarrow> bool go_result" where
  "IsAnyGTE_loop [] coinsB = Ret False"
| "IsAnyGTE_loop (coin # coins) coinsB =
     go_bind (AmountOf coinsB (Denom coin)) (\<lambda>amt.
       if Amount coin \<ge> amt \<and> \<not> (amt = 0) then Ret True else IsAnyGTE_loop coins coinsB)"

definition IsAnyGTE :: "Coins \<Rightarrow> Coins \<Rightarrow> bool go_result" where
  "IsAnyGTE coins coinsB = (if length coinsB = 0 then Ret False else IsAnyGTE_loop coins coinsB)"

subsection \<open>SDK errors\<close>

text \<open>
  The registered errors of \<^verbatim>\<open>sdkerrors\<close> that the file uses. An error built by
  \<^verbatim>\<open>fmt.Errorf\<close>, \<^verbatim>\<open>sdkerrors.Wrap\<close> or \<^verbatim>\<open>sdkerrors.Wrapf\<close> is kept as its parts: the registered
  error, the format string and the arguments, not rendered to text.
\<close>

datatype sdk_error = ErrTxDecode | ErrInsufficientFee | ErrUnknownAddress | ErrInsufficientFunds

type_synonym AccAddress = "8 word list"

subsection \<open>Parameters: \<^verbatim>\<open>FeeParams\<close> and \<^verbatim>\<open>ValidateFee\<close>\<close>

definition ParamStoreKeyfee :: string where
  "ParamStoreKeyfee = ''fee''"

definition ParamStoreKeyburn :: string where
  "ParamStoreKeyburn = ''burn''"

definition FeeParamspace :: string where
  "FeeParamspace = ''fee''"

record FeeParams =
  Fee :: DecCoins
  BurnAmount :: sdk_Int

definition NewFeeparam :: "DecCoins \<Rightarrow> sdk_Int \<Rightarrow> FeeParams" where
  "NewFeeparam fee burnAmount = \<lparr>Fee = fee, BurnAmount = burnAmount\<rparr>"

text \<open>
  A value of type \<^verbatim>\<open>interface{}\<close>, as \<^verbatim>\<open>ValidateFee\<close> and \<^verbatim>\<open>ParamStore.Get\<close> receive it: the
  dynamic type is the constructor.
\<close>

datatype go_value =
    VFeeParams FeeParams
  | VFeeParamsPtr FeeParams
  | VDecCoins DecCoins
  | VInt int
  | VString string
  | VNil

datatype fmt_arg =
    ArgCoins Coins
  | ArgDecCoins DecCoins
  | ArgInt sdk_Int
  | ArgAddress AccAddress
  | ArgValue go_value

datatype error =
    Errorf string "fmt_arg list"
  | Wrap sdk_error string
  | Wrapf sdk_error string "fmt_arg list"

text \<open>
  \<^verbatim>\<open>ValidateFee\<close>: \<open>Ret None\<close> is Go's \<^verbatim>\<open>nil\<close> error. The comparison of the burn amount is
  reached only with a non-empty fee set, and panics on a burn amount left at the zero value.
\<close>

definition ValidateFee :: "go_value \<Rightarrow> error option go_result" where
  "ValidateFee i =
     (case i of
        VFeeParams v \<Rightarrow>
          (if DecCoins_Empty (Fee v) then
             Ret (Some (Errorf ''fee must be positive: %s'' [ArgDecCoins (Fee v)]))
           else
             go_bind (Int_GTE (BurnAmount v) (NewInt 0)) (\<lambda>gte.
               if \<not> gte then
                 Ret (Some (Errorf ''burn amount must positive: %s '' [ArgInt (BurnAmount v)]))
               else Ret None))
      | _ \<Rightarrow> Ret (Some (Errorf ''invalid parameter type: %T'' [ArgValue i])))"

subsection \<open>The host's collaborators\<close>

text \<open>
  The context, the transaction, the parameter store and the keepers are interfaces of the
  host. The state they read and write (the ledger behind the context) is the type
  parameter \<open>'s\<close>, passed explicitly.
\<close>

record Context =
  IsCheckTx :: bool
  ChainID :: string
  BlockHeight :: int

record FeeTx =
  GetGas :: "64 word"
  GetFee :: Coins
  FeePayer :: AccAddress

text \<open>A transaction either implements \<^verbatim>\<open>sdk.FeeTx\<close> or does not.\<close>

datatype Tx = FeeTxOf FeeTx | PlainTx string

record Account =
  GetAddress :: AccAddress
  GetSequence :: nat

text \<open>
  The argument \<^verbatim>\<open>ptr interface{}\<close> of \<^verbatim>\<open>ParamStore.Get\<close>. Passed a pointer, \<^verbatim>\<open>Get\<close> stores the
  parameter in the caller's variable; passed a value, it holds a copy and the caller's
  variable is out of its reach.
\<close>

datatype go_arg = ByValue go_value | ByPointer go_value

text \<open>
  \<^verbatim>\<open>baseapp.ParamStore\<close>. \<open>Get ps ctx key ptr s\<close> is \<open>Panic m\<close> when the call panics and
  \<open>Ret v\<close> when it returns, \<open>v\<close> being the parameter it read under \<open>key\<close> (and stored through
  \<open>ptr\<close>, if \<open>ptr\<close> is a pointer).
\<close>

record 's ParamStore =
  Get :: "Context \<Rightarrow> string \<Rightarrow> go_arg \<Rightarrow> 's \<Rightarrow> go_value go_result"

text \<open>\<^verbatim>\<open>ante.AccountKeeper\<close>: a module address or an account may be absent (\<^verbatim>\<open>nil\<close>).\<close>

record 's AccountKeeper =
  GetModuleAddress :: "string \<Rightarrow> AccAddress option"
  GetAccount :: "Context \<Rightarrow> AccAddress \<Rightarrow> 's \<Rightarrow> Account option"

text \<open>
  \<^verbatim>\<open>authtypes.BankKeeper\<close>: the transfer returns the new state and \<open>None\<close>, or the text
  (\<^verbatim>\<open>err.Error()\<close>) of the error it failed with.
\<close>

record 's BankKeeper =
  SendCoinsFromAccountToModule ::
    "Context \<Rightarrow> AccAddress \<Rightarrow> string \<Rightarrow> Coins \<Rightarrow> 's \<Rightarrow> string option \<times> 's"

definition FeeCollectorName :: string where
  "FeeCollectorName = ''fee_collector''"

text \<open>\<^verbatim>\<open>sdk.AnteHandler\<close>: returns the new context and an error, or panics.\<close>

type_synonym 's AnteHandler =
  "Context \<Rightarrow> Tx \<Rightarrow> bool \<Rightarrow> 's \<Rightarrow> (Context \<times> error option) go_result \<times> 's"

subsection \<open>\<^verbatim>\<open>FeeParamDecorator\<close>\<close>

text \<open>The field is an interface value, \<open>None\<close> when \<^verbatim>\<open>nil\<close>.\<close>

record 's FeeParamDecorator =
  mfd_ParamStore :: "'s ParamStore option"

definition NewFeeParamDecorator :: "'s ParamStore option \<Rightarrow> 's FeeParamDecorator" where
  "NewFeeParamDecorator params = \<lparr>mfd_ParamStore = params\<rparr>"

text \<open>
  The loop of \<^verbatim>\<open>AnteHandle\<close> that fills \<^verbatim>\<open>requiredFees\<close>, one coin for each minimum gas price,
  in order. \<^verbatim>\<open>glDec\<close> is \<^verbatim>\<open>sdk.NewDec(int64(gas))\<close>: the conversion of the unsigned gas limit to
  \<^verbatim>\<open>int64\<close> keeps the bits, which is \<open>sint\<close>.
\<close>

fun requiredFees_loop :: "Dec \<Rightarrow> DecCoins \<Rightarrow> Coins go_result" where
  "requiredFees_loop glDec [] = Ret []"
| "requiredFees_loop glDec (gp # gps) =
     go_bind (Dec_Mul (DAmount gp) glDec) (\<lambda>fee.
     go_bind (Dec_RoundInt (Dec_Ceil fee)) (\<lambda>amount.
     go_bind (NewCoin (DDenom gp) amount) (\<lambda>coin.
     go_bind (requiredFees_loop glDec gps) (\<lambda>coins.
       Ret (coin # coins)))))"

definition requiredFees :: "DecCoins \<Rightarrow> 64 word \<Rightarrow> Coins go_result" where
  "requiredFees minGasPrices gas =
     (let glDec = NewDec (sint gas) in requiredFees_loop glDec minGasPrices)"

text \<open>
  The block of \<^verbatim>\<open>AnteHandle\<close> guarded by \<^verbatim>\<open>!minGasPrices.IsZero()\<close>: \<open>Ret (Some err)\<close> is its
  early return, \<open>Ret None\<close> is falling through to the call of \<^verbatim>\<open>next\<close>.
\<close>

definition minFeeCheck :: "DecCoins \<Rightarrow> Coins \<Rightarrow> 64 word \<Rightarrow> error option go_result" where
  "minFeeCheck minGasPrices feeCoins gas =
     (if \<not> DecCoins_IsZero minGasPrices then
        go_bind (requiredFees minGasPrices gas) (\<lambda>required.
        go_bind (IsAnyGTE feeCoins required) (\<lambda>anyGTE.
          if \<not> anyGTE then
            Ret (Some (Wrapf ErrInsufficientFee ''insufficient fees; got: %s required: %s''
                        [ArgCoins feeCoins, ArgCoins required]))
          else Ret None))
      else Ret None)"

text \<open>
  \<^verbatim>\<open>FeeParamDecorator.AnteHandle\<close>. The local \<^verbatim>\<open>minGasPrices\<close> is declared with its zero value
  and handed to \<^verbatim>\<open>Get\<close> as a value, so after the call it is what it was before. A \<^verbatim>\<open>nil\<close>
  parameter store makes the method call panic.
\<close>

definition FeeParamDecorator_AnteHandle ::
  "'s FeeParamDecorator \<Rightarrow> Context \<Rightarrow> Tx \<Rightarrow> bool \<Rightarrow> 's AnteHandler \<Rightarrow> 's
     \<Rightarrow> (Context \<times> error option) go_result \<times> 's" where
  "FeeParamDecorator_AnteHandle mfd ctx tx simulate next s =
     (case tx of
        PlainTx _ \<Rightarrow> (Ret (ctx, Some (Wrap ErrTxDecode ''Tx must be a FeeTx'')), s)
      | FeeTxOf feeTx \<Rightarrow>
          (let feeCoins = GetFee feeTx; gas = GetGas feeTx
           in if IsCheckTx ctx \<and> \<not> simulate then
                (let minGasPrices = ([] :: DecCoins)
                 in case mfd_ParamStore mfd of
                      None \<Rightarrow> (Panic ''invalid memory address or nil pointer dereference'', s)
                    | Some ps \<Rightarrow>
                        (case Get ps ctx ParamStoreKeyfee (ByValue (VDecCoins minGasPrices)) s of
                           Panic m \<Rightarrow> (Panic m, s)
                         | Ret _ \<Rightarrow>
                             (case minFeeCheck minGasPrices feeCoins gas of
                                Panic m \<Rightarrow> (Panic m, s)
                              | Ret (Some err) \<Rightarrow> (Ret (ctx, Some err), s)
                              | Ret None \<Rightarrow> next ctx tx simulate s)))
              else next ctx tx simulate s))"

subsection \<open>\<^verbatim>\<open>DeductFeeDecorator\<close>\<close>

record 's DeductFeeDecorator =
  dfd_ak :: "'s AccountKeeper"
  dfd_bankKeeper :: "'s BankKeeper"
  dfd_ParamStore :: "'s ParamStore option"

text \<open>The constructor sets two fields; the third keeps its zero value, \<^verbatim>\<open>nil\<close>.\<close>

definition NewDeductFeeDecorator ::
  "'s AccountKeeper \<Rightarrow> 's BankKeeper \<Rightarrow> 's ParamStore option \<Rightarrow> 's DeductFeeDecorator" where
  "NewDeductFeeDecorator ak bk params =
     \<lparr>dfd_ak = ak, dfd_bankKeeper = bk, dfd_ParamStore = None\<rparr>"

definition DeductFees ::
  "'s BankKeeper \<Rightarrow> Context \<Rightarrow> Account \<Rightarrow> Coins \<Rightarrow> 's \<Rightarrow> error option \<times> 's" where
  "DeductFees bankKeeper ctx acc fees s =
     (if \<not> Coins_IsValid fees then
        (Some (Wrapf ErrInsufficientFee ''invalid fee amount: %s'' [ArgCoins fees]), s)
      else
        (case SendCoinsFromAccountToModule bankKeeper ctx (GetAddress acc) FeeCollectorName fees s of
           (Some err, s') \<Rightarrow> (Some (Wrapf ErrInsufficientFunds err []), s')
         | (None, s') \<Rightarrow> (None, s')))"

definition DeductFeeDecorator_AnteHandle ::
  "'s DeductFeeDecorator \<Rightarrow> Context \<Rightarrow> Tx \<Rightarrow> bool \<Rightarrow> 's AnteHandler \<Rightarrow> 's
     \<Rightarrow> (Context \<times> error option) go_result \<times> 's" where
  "DeductFeeDecorator_AnteHandle dfd ctx tx simulate next s =
     (case tx of
        PlainTx _ \<Rightarrow> (Ret (ctx, Some (Wrap ErrTxDecode ''Tx must be a FeeTx'')), s)
      | FeeTxOf feeTx \<Rightarrow>
          (case GetModuleAddress (dfd_ak dfd) FeeCollectorName of
             None \<Rightarrow> (Panic ''fee_collector module account has not been set'', s)
           | Some addr \<Rightarrow>
               (let feePayer = FeePayer feeTx
                in case GetAccount (dfd_ak dfd) ctx feePayer s of
                     None \<Rightarrow>
                       (Ret (ctx, Some (Wrapf ErrUnknownAddress
                               ''fee payer address: %s does not exist'' [ArgAddress feePayer])), s)
                   | Some feePayerAcc \<Rightarrow>
                       (if \<not> Coins_IsZero (GetFee feeTx) then
                          (case DeductFees (dfd_bankKeeper dfd) ctx feePayerAcc (GetFee feeTx) s of
                             (Some err, s') \<Rightarrow> (Ret (ctx, Some err), s')
                           | (None, s') \<Rightarrow> next ctx tx simulate s')
                        else next ctx tx simulate s))))"

subsection \<open>Sample collaborators\<close>

text \<open>
  Small implementations of the host's interfaces, on which the decorators can be run: a
  parameter store given by a table, an account keeper that knows one account, a bank
  keeper that logs each transfer in the state, one that refuses every transfer, and a
  last handler of the chain that accepts.
\<close>

definition tableParamStore :: "(string \<times> go_value) list \<Rightarrow> 's ParamStore" where
  "tableParamStore table =
     \<lparr>Get = (\<lambda>ctx key ptr s.
        case map_of table key of None \<Rightarrow> Panic ''parameter not set'' | Some v \<Rightarrow> Ret v)\<rparr>"

definition panickingParamStore :: "'s ParamStore" where
  "panickingParamStore = \<lparr>Get = (\<lambda>ctx key ptr s. Panic ''type mismatch with registered table'')\<rparr>"

type_synonym transfers = "(AccAddress \<times> string \<times> Coins) list"

definition sampleAccountKeeper :: "AccAddress option \<Rightarrow> transfers AccountKeeper" where
  "sampleAccountKeeper collector =
     \<lparr>GetModuleAddress = (\<lambda>name. if name = FeeCollectorName then collector else None),
      GetAccount = (\<lambda>ctx addr s.
        if addr = [1] then Some \<lparr>GetAddress = [1], GetSequence = 0\<rparr> else None)\<rparr>"

definition loggingBankKeeper :: "transfers BankKeeper" where
  "loggingBankKeeper =
     \<lparr>SendCoinsFromAccountToModule = (\<lambda>ctx from module amt s. (None, s @ [(from, module, amt)]))\<rparr>"

definition refusingBankKeeper :: "transfers BankKeeper" where
  "refusingBankKeeper =
     \<lparr>SendCoinsFromAccountToModule = (\<lambda>ctx from module amt s. (Some ''insufficient funds'', s))\<rparr>"

definition acceptAll :: "'s AnteHandler" where
  "acceptAll ctx tx simulate s = (Ret (ctx, None), s)"

definition checkCtx :: Context where
  "checkCtx = \<lparr>IsCheckTx = True, ChainID = ''fee-1'', BlockHeight = 7\<rparr>"

definition deliverCtx :: Context where
  "deliverCtx = \<lparr>IsCheckTx = False, ChainID = ''fee-1'', BlockHeight = 7\<rparr>"

definition sampleTx :: "64 word \<Rightarrow> Coins \<Rightarrow> AccAddress \<Rightarrow> Tx" where
  "sampleTx gas fee payer = FeeTxOf \<lparr>GetGas = gas, GetFee = fee, FeePayer = payer\<rparr>"

text \<open>
  The number a decimal stands for, and the fee the loop is meant to compute for one
  minimum gas price \<open>gp\<close> and a gas limit \<open>g\<close>: the rate times the gas limit, rounded up.
\<close>

definition Dec_value :: "Dec \<Rightarrow> rat" where
  "Dec_value d = of_int (dec_i d) / of_int precisionReuse"

definition fee_ceil :: "DecCoin \<Rightarrow> int \<Rightarrow> int" where
  "fee_ceil gp g = \<lceil>Dec_value (DAmount gp) * of_int g\<rceil>"

text \<open>One iteration of the loop of \<open>requiredFees_loop\<close>: the coin for one minimum gas price.\<close>

definition feeCoin :: "Dec \<Rightarrow> DecCoin \<Rightarrow> Coin go_result" where
  "feeCoin glDec gp =
     go_bind (Dec_Mul (DAmount gp) glDec) (\<lambda>fee.
     go_bind (Dec_RoundInt (Dec_Ceil fee)) (\<lambda>amount. NewCoin (DDenom gp) amount))"

text \<open>
  What a run of a handler ends with, apart from the context it hands back: the panic, or
  the error (\<open>None\<close> for \<^verbatim>\<open>nil\<close>).
\<close>

definition outcome :: "(Context \<times> error option) go_result \<Rightarrow> error option go_result" where
  "outcome r = (case r of Panic m \<Rightarrow> Panic m | Ret (ctx, err) \<Rightarrow> Ret err)"

section \<open>Properties\<close>

subsection \<open>Parameter validation\<close>

text \<open>
  Claim C7. \<^verbatim>\<open>ValidateFee\<close> returns an error if and only if the candidate is not a
  \<^verbatim>\<open>FeeParams\<close> value, or its fee set is empty, or its burn amount is negative; for a
  \<^verbatim>\<open>FeeParams\<close> with a non-empty fee set and a burn amount of at least 0 it returns \<^verbatim>\<open>nil\<close>.
  The one candidate left, a \<^verbatim>\<open>FeeParams\<close> with a non-empty fee set whose burn amount was
  never set and so is no number, makes it panic.
\<close>

theorem ValidateFee_error_iff:
  "((\<exists>e. ValidateFee i = Ret (Some e)) \<longleftrightarrow>
      \<not> (\<exists>v. i = VFeeParams v) \<or>
      (\<exists>v. i = VFeeParams v \<and>
           (DecCoins_Empty (Fee v) \<or> (\<exists>b. BurnAmount v = IntOf b \<and> b < 0)))) \<and>
   (\<not> DecCoins_Empty (Fee p) \<and> BurnAmount p = IntOf n \<and> 0 \<le> n \<longrightarrow>
      ValidateFee (VFeeParams p) = Ret None) \<and>
   ((\<exists>m. ValidateFee i = Panic m) \<longleftrightarrow>
      (\<exists>v. i = VFeeParams v \<and> \<not> DecCoins_Empty (Fee v) \<and> BurnAmount v = NilInt))"
proof -
  have fp: "(\<exists>e. ValidateFee (VFeeParams v) = Ret (Some e)) \<longleftrightarrow>
              DecCoins_Empty (Fee v) \<or> (\<exists>b. BurnAmount v = IntOf b \<and> b < 0)" for v
    by (cases "BurnAmount v")
      (auto simp: ValidateFee_def Int_GTE_def NewInt_def go_bind_def)
  have pn: "(\<exists>m. ValidateFee (VFeeParams v) = Panic m) \<longleftrightarrow>
              \<not> DecCoins_Empty (Fee v) \<and> BurnAmount v = NilInt" for v
    by (cases "BurnAmount v")
      (auto simp: ValidateFee_def Int_GTE_def NewInt_def go_bind_def)
  have ok: "\<not> DecCoins_Empty (Fee p) \<and> BurnAmount p = IntOf n \<and> 0 \<le> n \<longrightarrow>
              ValidateFee (VFeeParams p) = Ret None"
    by (auto simp: ValidateFee_def Int_GTE_def NewInt_def go_bind_def)
  show ?thesis
  proof (cases i)
    case (VFeeParams v)
    with fp [of v] pn [of v] ok show ?thesis by simp
  qed (use ok in \<open>auto simp: ValidateFee_def\<close>)
qed

theorem ValidateFee_error_iff_witness:
  "ValidateFee (VFeeParams (NewFeeparam [DecCoin ''stake'' (Dec 1)] (NewInt 0))) = Ret None \<and>
   (\<exists>e. ValidateFee (VFeeParams (NewFeeparam [] (NewInt 0))) = Ret (Some e)) \<and>
   (\<exists>e. ValidateFee (VFeeParams (NewFeeparam [DecCoin ''stake'' (Dec 1)] (NewInt (- 1)))) =
          Ret (Some e)) \<and>
   (\<exists>e. ValidateFee (VDecCoins [DecCoin ''stake'' (Dec 1)]) = Ret (Some e)) \<and>
   (\<exists>m. ValidateFee (VFeeParams (NewFeeparam [DecCoin ''stake'' (Dec 1)] NilInt)) = Panic m)"
  using ValidateFee_error_iff [of "VFeeParams (NewFeeparam [] (NewInt 0))"
      "NewFeeparam [DecCoin ''stake'' (Dec 1)] (NewInt 0)" 0]
    ValidateFee_error_iff [of "VFeeParams (NewFeeparam [DecCoin ''stake'' (Dec 1)] (NewInt (- 1)))"]
    ValidateFee_error_iff [of "VDecCoins [DecCoin ''stake'' (Dec 1)]"]
    ValidateFee_error_iff [of "VFeeParams (NewFeeparam [DecCoin ''stake'' (Dec 1)] NilInt)"]
  by (simp add: NewFeeparam_def NewInt_def DecCoins_Empty_def)

subsection \<open>Constructors\<close>

text \<open>
  Claim C10. \<^verbatim>\<open>NewDeductFeeDecorator\<close> ignores its \<^verbatim>\<open>params\<close> argument: whatever it is, the
  \<^verbatim>\<open>ParamStore\<close> field of the result is the zero value, and only the two keeper fields are
  set from the arguments.
\<close>

theorem NewDeductFeeDecorator_ignores_params:
  "dfd_ParamStore (NewDeductFeeDecorator ak bk params) = None \<and>
   dfd_ak (NewDeductFeeDecorator ak bk params) = ak \<and>
   dfd_bankKeeper (NewDeductFeeDecorator ak bk params) = bk \<and>
   NewDeductFeeDecorator ak bk params = NewDeductFeeDecorator ak bk params'"
  by (simp add: NewDeductFeeDecorator_def)

subsection \<open>The minimum-fee decorator\<close>

text \<open>
  Claim C3. For a transaction implementing \<^verbatim>\<open>FeeTx\<close>, when the context is not a CheckTx
  context or the simulate flag is set, \<^verbatim>\<open>FeeParamDecorator.AnteHandle\<close> validates nothing:
  it is the call of \<^verbatim>\<open>next\<close> on the same context, transaction and flag, whatever the fee.
\<close>

theorem FeeParam_AnteHandle_passthrough:
  assumes "\<not> IsCheckTx ctx \<or> simulate"
  shows "FeeParamDecorator_AnteHandle mfd ctx (FeeTxOf feeTx) simulate next s =
         next ctx (FeeTxOf feeTx) simulate s"
  using assms by (auto simp: FeeParamDecorator_AnteHandle_def Let_def)

theorem FeeParam_AnteHandle_passthrough_witness:
  "\<not> IsCheckTx deliverCtx \<and>
   FeeParamDecorator_AnteHandle (NewFeeParamDecorator (Some panickingParamStore)) deliverCtx
     (sampleTx 100 [] [1]) False acceptAll ([] :: transfers) = (Ret (deliverCtx, None), []) \<and>
   IsCheckTx checkCtx \<and>
   FeeParamDecorator_AnteHandle (NewFeeParamDecorator (Some panickingParamStore)) checkCtx
     (sampleTx 100 [] [1]) True acceptAll ([] :: transfers) = (Ret (checkCtx, None), [])"
  using FeeParam_AnteHandle_passthrough [of deliverCtx False "NewFeeParamDecorator (Some panickingParamStore)"
      "\<lparr>GetGas = 100, GetFee = [], FeePayer = [1]\<rparr>" acceptAll "[] :: transfers"]
    FeeParam_AnteHandle_passthrough [of checkCtx True "NewFeeParamDecorator (Some panickingParamStore)"
      "\<lparr>GetGas = 100, GetFee = [], FeePayer = [1]\<rparr>" acceptAll "[] :: transfers"]
  by (simp add: deliverCtx_def checkCtx_def sampleTx_def acceptAll_def)






text \<open>
  Claim C1, on one input. The store holds the minimum \<open>0.1 stake\<close> per unit of gas, the
  context is a CheckTx context, the run is no simulation, and the transaction declares
  \<open>9 stake\<close> for 100 units of gas, less than the \<open>10 stake\<close> required. The guarded block,
  given the configured rates, returns the InsufficientFee error with both fee sets; the
  decorator never hands it the configured rates and calls \<^verbatim>\<open>next\<close>.
\<close>

theorem FeeParam_AnteHandle_accepts_low_fee:
  "FeeParamDecorator_AnteHandle
     (NewFeeParamDecorator (Some (tableParamStore
        [(ParamStoreKeyfee, VDecCoins [DecCoin ''stake'' (Dec (10 ^ 17))])])))
     checkCtx (sampleTx 100 [Coin ''stake'' 9] [1]) False acceptAll ([] :: transfers) =
   acceptAll checkCtx (sampleTx 100 [Coin ''stake'' 9] [1]) False [] \<and>
   minFeeCheck [DecCoin ''stake'' (Dec (10 ^ 17))] [Coin ''stake'' 9] 100 =
   Ret (Some (Wrapf ErrInsufficientFee ''insufficient fees; got: %s required: %s''
          [ArgCoins [Coin ''stake'' 9], ArgCoins [Coin ''stake'' 10]]))"
  by code_simp

subsection \<open>The fee-deduction decorator\<close>

text \<open>
  What \<open>Coins_IsValid\<close> accepts: valid denominations, positive amounts, denominations in
  strictly ascending order.
\<close>

lemma Coins_Validate_rest_iff:
  "Coins_Validate_rest lowDenom coins \<longleftrightarrow>
     (\<forall>c \<in> set coins. ValidateDenom (Denom c) \<and> 0 < Amount c) \<and>
     sorted_wrt (<) (lowDenom # map Denom coins)"
proof (induction coins arbitrary: lowDenom)
  case Nil
  show ?case by simp
next
  case (Cons c cs)
  have tr: "\<And>d. Denom c < d \<Longrightarrow> lowDenom < Denom c \<Longrightarrow> lowDenom < d"
    by (rule less_trans)
  show ?case
    using tr by (auto simp: Cons.IH not_le)
qed

lemma Coins_IsValid_iff:
  "Coins_IsValid coins \<longleftrightarrow>
     (\<forall>c \<in> set coins. ValidateDenom (Denom c) \<and> 0 < Amount c) \<and>
     sorted_wrt (<) (map Denom coins)"
  by (cases coins) (auto simp: Coins_IsValid_def Coins_Validate_rest_iff)

text \<open>
  Claim C5, amended. \<^verbatim>\<open>DeductFees\<close> first checks the fee set with \<^verbatim>\<open>IsValid\<close>: valid
  denominations, in strictly ascending order (so sorted and unique), and strictly positive
  amounts. A set that fails the check gives an InsufficientFee error, with the state
  untouched and whatever the bank keeper is: the transfer is not invoked. Otherwise a
  failing transfer comes back wrapped as an InsufficientFunds error, and a successful one
  gives \<^verbatim>\<open>nil\<close>.
\<close>

theorem DeductFees_outcomes:
  "(\<not> Coins_IsValid fees \<longrightarrow>
      DeductFees bankKeeper ctx acc fees s =
        (Some (Wrapf ErrInsufficientFee ''invalid fee amount: %s'' [ArgCoins fees]), s) \<and>
      DeductFees bankKeeper' ctx acc fees s = DeductFees bankKeeper ctx acc fees s) \<and>
   (Coins_IsValid fees \<and>
    SendCoinsFromAccountToModule bankKeeper ctx (GetAddress acc) FeeCollectorName fees s = (Some err, s')
      \<longrightarrow> DeductFees bankKeeper ctx acc fees s = (Some (Wrapf ErrInsufficientFunds err []), s')) \<and>
   (Coins_IsValid fees \<and>
    SendCoinsFromAccountToModule bankKeeper ctx (GetAddress acc) FeeCollectorName fees s = (None, s')
      \<longrightarrow> DeductFees bankKeeper ctx acc fees s = (None, s')) \<and>
   (Coins_IsValid fees \<longleftrightarrow>
      (\<forall>c \<in> set fees. ValidateDenom (Denom c) \<and> 0 < Amount c) \<and>
      sorted_wrt (<) (map Denom fees))"
  using Coins_IsValid_iff [of fees] by (simp add: DeductFees_def)

theorem DeductFees_outcomes_witness:
  "DeductFees loggingBankKeeper deliverCtx \<lparr>GetAddress = [1], GetSequence = 0\<rparr>
     [Coin ''stake'' (- 5)] [] =
     (Some (Wrapf ErrInsufficientFee ''invalid fee amount: %s'' [ArgCoins [Coin ''stake'' (- 5)]]), []) \<and>
   DeductFees refusingBankKeeper deliverCtx \<lparr>GetAddress = [1], GetSequence = 0\<rparr>
     [Coin ''stake'' 5] [] = (Some (Wrapf ErrInsufficientFunds ''insufficient funds'' []), []) \<and>
   DeductFees loggingBankKeeper deliverCtx \<lparr>GetAddress = [1], GetSequence = 0\<rparr>
     [Coin ''stake'' 5] [] = (None, [([1], ''fee_collector'', [Coin ''stake'' 5])])"
  using DeductFees_outcomes [of "[Coin ''stake'' (- 5)]" loggingBankKeeper deliverCtx
      "\<lparr>GetAddress = [1], GetSequence = 0\<rparr>" "[]" loggingBankKeeper]
    DeductFees_outcomes [of "[Coin ''stake'' 5]" refusingBankKeeper deliverCtx
      "\<lparr>GetAddress = [1], GetSequence = 0\<rparr>" "[]" refusingBankKeeper "''insufficient funds''" "[]"]
    DeductFees_outcomes [of "[Coin ''stake'' 5]" loggingBankKeeper deliverCtx
      "\<lparr>GetAddress = [1], GetSequence = 0\<rparr>" "[]" loggingBankKeeper undefined
      "[([1], ''fee_collector'', [Coin ''stake'' 5])]"]
  by (simp add: Coins_IsValid_def ValidateDenom_def is_letter_def is_denom_char_def
        loggingBankKeeper_def refusingBankKeeper_def FeeCollectorName_def)

text \<open>
  Claim C5 as stated, with well-formed meaning non-negative amounts, fails on the fee set
  \<open>0atom, 5stake\<close>: the denominations are valid, sorted and unique and no amount is
  negative, yet \<^verbatim>\<open>DeductFees\<close> returns the InsufficientFee error and no transfer is logged. The
  decorator hands this fee set to \<^verbatim>\<open>DeductFees\<close>, since it is not zero.
\<close>

theorem DeductFees_zero_amount_counterexample:
  "ValidateDenom ''atom'' \<and> ValidateDenom ''stake'' \<and> ''atom'' < ''stake'' \<and>
   (0 :: int) \<le> 0 \<and> (0 :: int) \<le> 5 \<and>
   DeductFees loggingBankKeeper deliverCtx \<lparr>GetAddress = [1], GetSequence = 0\<rparr>
     [Coin ''atom'' 0, Coin ''stake'' 5] [] =
     (Some (Wrapf ErrInsufficientFee ''invalid fee amount: %s''
              [ArgCoins [Coin ''atom'' 0, Coin ''stake'' 5]]), []) \<and>
   DeductFeeDecorator_AnteHandle
     (NewDeductFeeDecorator (sampleAccountKeeper (Some [9])) loggingBankKeeper None)
     deliverCtx (sampleTx 100 [Coin ''atom'' 0, Coin ''stake'' 5] [1]) False acceptAll [] =
     (Ret (deliverCtx, Some (Wrapf ErrInsufficientFee ''invalid fee amount: %s''
              [ArgCoins [Coin ''atom'' 0, Coin ''stake'' 5]])), [])"
  by code_simp

text \<open>
  Claim C6. When the fee payer of a \<^verbatim>\<open>FeeTx\<close> transaction has no account (the lookup
  \<^verbatim>\<open>GetAccount\<close>, reached once the collector's address is found, returns \<^verbatim>\<open>nil\<close>),
  \<^verbatim>\<open>DeductFeeDecorator.AnteHandle\<close> returns an UnknownAddress error naming the payer. The
  state is untouched and the result is the same for every bank keeper and every \<^verbatim>\<open>next\<close>:
  neither the transfer nor \<^verbatim>\<open>next\<close> is invoked.
\<close>

theorem DeductFee_AnteHandle_unknown_payer:
  assumes "GetModuleAddress (dfd_ak dfd) FeeCollectorName = Some addr"
      and "GetAccount (dfd_ak dfd) ctx (FeePayer feeTx) s = None"
  shows "DeductFeeDecorator_AnteHandle dfd ctx (FeeTxOf feeTx) simulate next s =
           (Ret (ctx, Some (Wrapf ErrUnknownAddress ''fee payer address: %s does not exist''
                              [ArgAddress (FeePayer feeTx)])), s) \<and>
         DeductFeeDecorator_AnteHandle (dfd\<lparr>dfd_bankKeeper := bankKeeper'\<rparr>) ctx (FeeTxOf feeTx)
           simulate' next' s =
         DeductFeeDecorator_AnteHandle dfd ctx (FeeTxOf feeTx) simulate next s"
  using assms by (simp add: DeductFeeDecorator_AnteHandle_def)

theorem DeductFee_AnteHandle_unknown_payer_witness:
  "DeductFeeDecorator_AnteHandle
     (NewDeductFeeDecorator (sampleAccountKeeper (Some [9])) loggingBankKeeper None)
     deliverCtx (sampleTx 100 [Coin ''stake'' 5] [2]) False acceptAll [] =
   (Ret (deliverCtx, Some (Wrapf ErrUnknownAddress ''fee payer address: %s does not exist''
                              [ArgAddress [2]])), [])"
  using DeductFee_AnteHandle_unknown_payer
    [of "NewDeductFeeDecorator (sampleAccountKeeper (Some [9])) loggingBankKeeper None" "[9]"
      deliverCtx "\<lparr>GetGas = 100, GetFee = [Coin ''stake'' 5], FeePayer = [2]\<rparr>" "[]"
      False acceptAll loggingBankKeeper False acceptAll]
  by (simp add: NewDeductFeeDecorator_def sampleAccountKeeper_def sampleTx_def)

text \<open>A context that the bank keeper does not tell from another gives the same deduction.\<close>

lemma DeductFees_ctx_cong:
  assumes "SendCoinsFromAccountToModule bk ctx' = SendCoinsFromAccountToModule bk ctx"
  shows "DeductFees bk ctx' acc fees s = DeductFees bk ctx acc fees s"
  by (simp add: DeductFees_def assms)

text \<open>
  The decorator run with \<^verbatim>\<open>next\<close> is the decorator run with a handler that accepts, followed
  by \<^verbatim>\<open>next\<close> on the same context, transaction and flag when that run ended without error.
\<close>

lemma DeductFee_AnteHandle_forward:
  "DeductFeeDecorator_AnteHandle dfd ctx tx simulate next s =
     (case DeductFeeDecorator_AnteHandle dfd ctx tx simulate acceptAll s of
        (Ret (c, None), t) \<Rightarrow> next ctx tx simulate t
      | r \<Rightarrow> r)"
  by (simp add: DeductFeeDecorator_AnteHandle_def acceptAll_def Let_def
           split: Tx.splits option.splits prod.splits go_result.splits)

lemma DeductFee_AnteHandle_stub_ctx:
  assumes "GetAccount (dfd_ak dfd) ctx' = GetAccount (dfd_ak dfd) ctx"
      and "SendCoinsFromAccountToModule (dfd_bankKeeper dfd) ctx' =
           SendCoinsFromAccountToModule (dfd_bankKeeper dfd) ctx"
  shows "outcome (fst (DeductFeeDecorator_AnteHandle dfd ctx' tx simulate' acceptAll s)) =
         outcome (fst (DeductFeeDecorator_AnteHandle dfd ctx tx simulate acceptAll s)) \<and>
         snd (DeductFeeDecorator_AnteHandle dfd ctx' tx simulate' acceptAll s) =
         snd (DeductFeeDecorator_AnteHandle dfd ctx tx simulate acceptAll s)"
  by (simp add: DeductFeeDecorator_AnteHandle_def acceptAll_def Let_def outcome_def
        assms(1) DeductFees_ctx_cong [OF assms(2)]
      split: Tx.splits option.splits prod.splits go_result.splits)

text \<open>
  Claim C9. \<^verbatim>\<open>DeductFeeDecorator.AnteHandle\<close> does not look at the simulate flag or at the
  mode of the context. Take two runs from the same state, on contexts that the keepers do
  not tell apart, with any two simulate flags, and with continuations that agree: they end
  with the same panic or error and in the same state. The flag and the context are only
  forwarded: the run is the deduction followed by \<^verbatim>\<open>next\<close> on the very context, transaction
  and flag received.
\<close>

theorem DeductFee_AnteHandle_flags_only_forwarded:
  "(GetAccount (dfd_ak dfd) ctx' = GetAccount (dfd_ak dfd) ctx \<and>
    SendCoinsFromAccountToModule (dfd_bankKeeper dfd) ctx' =
      SendCoinsFromAccountToModule (dfd_bankKeeper dfd) ctx \<and>
    (\<forall>t. outcome (fst (next' ctx' tx simulate' t)) = outcome (fst (next ctx tx simulate t)) \<and>
         snd (next' ctx' tx simulate' t) = snd (next ctx tx simulate t))
    \<longrightarrow>
    outcome (fst (DeductFeeDecorator_AnteHandle dfd ctx' tx simulate' next' s)) =
      outcome (fst (DeductFeeDecorator_AnteHandle dfd ctx tx simulate next s)) \<and>
    snd (DeductFeeDecorator_AnteHandle dfd ctx' tx simulate' next' s) =
      snd (DeductFeeDecorator_AnteHandle dfd ctx tx simulate next s)) \<and>
   DeductFeeDecorator_AnteHandle dfd ctx tx simulate next s =
     (case DeductFeeDecorator_AnteHandle dfd ctx tx simulate acceptAll s of
        (Ret (c, None), t) \<Rightarrow> next ctx tx simulate t
      | r \<Rightarrow> r)"
proof (intro conjI impI)
  assume h: "GetAccount (dfd_ak dfd) ctx' = GetAccount (dfd_ak dfd) ctx \<and>
    SendCoinsFromAccountToModule (dfd_bankKeeper dfd) ctx' =
      SendCoinsFromAccountToModule (dfd_bankKeeper dfd) ctx \<and>
    (\<forall>t. outcome (fst (next' ctx' tx simulate' t)) = outcome (fst (next ctx tx simulate t)) \<and>
         snd (next' ctx' tx simulate' t) = snd (next ctx tx simulate t))"
  let ?stub' = "DeductFeeDecorator_AnteHandle dfd ctx' tx simulate' acceptAll s"
  let ?stub = "DeductFeeDecorator_AnteHandle dfd ctx tx simulate acceptAll s"
  from h have stub: "outcome (fst ?stub') = outcome (fst ?stub)" "snd ?stub' = snd ?stub"
    using DeductFee_AnteHandle_stub_ctx [of dfd ctx' ctx tx simulate' s simulate] by simp_all
  from h have nx:
    "\<And>t. outcome (fst (next' ctx' tx simulate' t)) = outcome (fst (next ctx tx simulate t))"
    "\<And>t. snd (next' ctx' tx simulate' t) = snd (next ctx tx simulate t)"
    by simp_all
  have both: "outcome (fst (DeductFeeDecorator_AnteHandle dfd ctx' tx simulate' next' s)) =
      outcome (fst (DeductFeeDecorator_AnteHandle dfd ctx tx simulate next s)) \<and>
    snd (DeductFeeDecorator_AnteHandle dfd ctx' tx simulate' next' s) =
      snd (DeductFeeDecorator_AnteHandle dfd ctx tx simulate next s)"
  proof -
    obtain r' t' where st': "?stub' = (r', t')" by (cases ?stub')
    obtain r t where st: "?stub = (r, t)" by (cases ?stub)
    from stub st st' have eq: "outcome r' = outcome r" "t' = t" by simp_all
    have A': "DeductFeeDecorator_AnteHandle dfd ctx' tx simulate' next' s =
        (case ?stub' of (Ret (c, None), t) \<Rightarrow> next' ctx' tx simulate' t | r \<Rightarrow> r)"
      by (rule DeductFee_AnteHandle_forward)
    have A: "DeductFeeDecorator_AnteHandle dfd ctx tx simulate next s =
        (case ?stub of (Ret (c, None), t) \<Rightarrow> next ctx tx simulate t | r \<Rightarrow> r)"
      by (rule DeductFee_AnteHandle_forward)
    show ?thesis
      unfolding A' A st st' using eq nx
      by (cases r; cases r') (auto simp: outcome_def split: option.splits)
  qed
  from both show "outcome (fst (DeductFeeDecorator_AnteHandle dfd ctx' tx simulate' next' s)) =
      outcome (fst (DeductFeeDecorator_AnteHandle dfd ctx tx simulate next s))" by simp
  from both show "snd (DeductFeeDecorator_AnteHandle dfd ctx' tx simulate' next' s) =
      snd (DeductFeeDecorator_AnteHandle dfd ctx tx simulate next s)" by simp
next
  show "DeductFeeDecorator_AnteHandle dfd ctx tx simulate next s =
     (case DeductFeeDecorator_AnteHandle dfd ctx tx simulate acceptAll s of
        (Ret (c, None), t) \<Rightarrow> next ctx tx simulate t
      | r \<Rightarrow> r)" by (rule DeductFee_AnteHandle_forward)
qed

theorem DeductFee_AnteHandle_flags_only_forwarded_witness:
  "outcome (fst (DeductFeeDecorator_AnteHandle
      (NewDeductFeeDecorator (sampleAccountKeeper (Some [9])) loggingBankKeeper None)
      checkCtx (sampleTx 100 [Coin ''stake'' 5] [1]) True acceptAll [])) =
   outcome (fst (DeductFeeDecorator_AnteHandle
      (NewDeductFeeDecorator (sampleAccountKeeper (Some [9])) loggingBankKeeper None)
      deliverCtx (sampleTx 100 [Coin ''stake'' 5] [1]) False acceptAll [])) \<and>
   snd (DeductFeeDecorator_AnteHandle
      (NewDeductFeeDecorator (sampleAccountKeeper (Some [9])) loggingBankKeeper None)
      checkCtx (sampleTx 100 [Coin ''stake'' 5] [1]) True acceptAll []) =
   snd (DeductFeeDecorator_AnteHandle
      (NewDeductFeeDecorator (sampleAccountKeeper (Some [9])) loggingBankKeeper None)
      deliverCtx (sampleTx 100 [Coin ''stake'' 5] [1]) False acceptAll [])"
  using DeductFee_AnteHandle_flags_only_forwarded
    [of "NewDeductFeeDecorator (sampleAccountKeeper (Some [9])) loggingBankKeeper None"
      checkCtx deliverCtx acceptAll "sampleTx 100 [Coin ''stake'' 5] [1]" True acceptAll False "[]"]
  by (simp add: NewDeductFeeDecorator_def sampleAccountKeeper_def loggingBankKeeper_def
        acceptAll_def outcome_def)

subsection \<open>The required fees\<close>

text \<open>
  The decimal operations on the values the loop meets: a product with a whole number is
  exact, \<open>Dec_Ceil\<close> is the ceiling, and the range checks are bounds on absolute values.
\<close>

lemma BitLen_gt_iff: "0 \<le> n \<Longrightarrow> BitLen x > n \<longleftrightarrow> 2 ^ nat n \<le> \<bar>x\<bar>"
  using bitlen_le_iff_power [of "\<bar>x\<bar>" n] by (auto simp: BitLen_def)

lemma precisionReuse_pos: "0 < precisionReuse"
  by (simp add: precisionReuse_def)

lemma sdiv_smod_mult: "(x * precisionReuse) sdiv precisionReuse = x \<and> (x * precisionReuse) smod precisionReuse = 0"
proof -
  have P: "0 < precisionReuse" by (rule precisionReuse_pos)
  have "(x * precisionReuse) sdiv precisionReuse = sgn x * \<bar>x\<bar>"
    using P by (simp add: signed_divide_int_def sgn_mult abs_mult)
  moreover have "(x * precisionReuse) smod precisionReuse = 0"
    using P by (simp add: signed_modulo_int_def abs_mult)
  ultimately show ?thesis by (simp add: mult_sgn_abs)
qed

lemma chop_exact: "chopPrecisionAndRound (x * precisionReuse) = x"
proof -
  have a: "chopPrecisionAndRound_nonneg (y * precisionReuse) = y" for y
    by (simp add: chopPrecisionAndRound_nonneg_def sdiv_smod_mult Let_def)
  have "- (x * precisionReuse) = (- x) * precisionReuse" by simp
  then show ?thesis
    using precisionReuse_pos a [of x] a [of "- x"]
    by (auto simp: chopPrecisionAndRound_def mult_less_0_iff)
qed

lemma Dec_Ceil_eq: "Dec_Ceil (Dec x) = NewDec \<lceil>(of_int x / of_int precisionReuse :: rat)\<rceil>"
proof -
  let ?P = precisionReuse
  have P: "0 < ?P" by (rule precisionReuse_pos)
  have c: "\<lceil>(of_int x / of_int ?P :: rat)\<rceil> = - ((- x) div ?P)"
    by (rule ceiling_divide_eq_div)
  show ?thesis
  proof (cases "0 \<le> x")
    case True
    then have q: "x sdiv ?P = x div ?P" and r: "x smod ?P = x mod ?P"
      using P by (auto simp: signed_divide_int_def signed_modulo_int_def sgn_if)
    have nm: "\<not> x mod ?P < 0" using P by (simp add: not_less)
    have ce: "\<lceil>(of_int x / of_int ?P :: rat)\<rceil> = (if x mod ?P = 0 then x div ?P else x div ?P + 1)"
      using P by (simp add: c zdiv_zminus1_eq_if)
    show ?thesis
      by (simp add: Dec_Ceil_def Let_def q r ce nm)
  next
    case False
    then have q: "x sdiv ?P = - ((- x) div ?P)" and r: "x smod ?P = - ((- x) mod ?P)"
      using P by (auto simp: signed_divide_int_def signed_modulo_int_def sgn_if)
    have m: "(- x) mod ?P = 0 \<or> 0 < (- x) mod ?P"
      using P pos_mod_sign [of ?P "- x"] by linarith
    then show ?thesis
      by (auto simp: Dec_Ceil_def Let_def q r c)
  qed
qed

lemma sint_gas:
  assumes "unat (gas :: 64 word) < 2 ^ 63"
  shows "sint gas = int (unat gas)"
proof -
  have "int (unat gas) < int (2 ^ 63)" using assms by (simp only: of_nat_less_iff)
  then have u: "uint gas < 2 ^ 63" by (simp only: uint_nat of_nat_power of_nat_numeral)
  have l: "- (2 ^ 63) \<le> uint gas"
    by (rule order_trans [of _ 0]) simp_all
  have "sint gas = signed_take_bit 63 (uint gas)" by (simp add: sint_uint)
  also have "\<dots> = uint gas"
    using l u by (rule signed_take_bit_int_eq_self)
  finally show ?thesis by (simp only: uint_nat)
qed

lemma fee_ceil_int: "fee_ceil gp g = - ((- (dec_i (DAmount gp) * g)) div precisionReuse)"
proof -
  have "Dec_value (DAmount gp) * of_int g = of_int (dec_i (DAmount gp) * g) / of_int precisionReuse"
    by (simp add: Dec_value_def)
  then show ?thesis
    unfolding fee_ceil_def by (simp only: ceiling_divide_eq_div)
qed

lemma ceil_bounds:
  fixes y :: int
  defines "c \<equiv> - ((- y) div precisionReuse)"
  shows "y \<le> c * precisionReuse" and "c * precisionReuse - precisionReuse < y"
proof -
  have P: "0 < precisionReuse" by (rule precisionReuse_pos)
  have e: "- y = precisionReuse * ((- y) div precisionReuse) + (- y) mod precisionReuse" by simp
  have m: "0 \<le> (- y) mod precisionReuse" "(- y) mod precisionReuse < precisionReuse"
    using P by simp_all
  have cm: "c * precisionReuse = - (precisionReuse * ((- y) div precisionReuse))"
    by (simp add: c_def)
  show "y \<le> c * precisionReuse" using e m cm by linarith
  show "c * precisionReuse - precisionReuse < y" using e m cm by linarith
qed

lemma product_in_range:
  fixes y :: int
  assumes "0 \<le> - ((- y) div precisionReuse)" and "- ((- y) div precisionReuse) < 2 ^ 255"
  shows "\<bar>y\<bar> < 2 ^ 315"
proof -
  let ?c = "- ((- y) div precisionReuse)"
  have P: "precisionReuse = 10 ^ 18" by (simp add: precisionReuse_def)
  have lo: "?c * precisionReuse - precisionReuse < y" and hi: "y \<le> ?c * precisionReuse"
    using ceil_bounds [of y] by simp_all
  have "0 \<le> ?c * precisionReuse"
    by (rule mult_nonneg_nonneg [OF assms(1) less_imp_le [OF precisionReuse_pos]])
  with lo have l: "- precisionReuse < y" by linarith
  have "?c \<le> 2 ^ 255 - 1" using assms(2) by simp
  then have "?c * precisionReuse \<le> (2 ^ 255 - 1) * precisionReuse"
    using precisionReuse_pos by (simp only: mult_right_mono less_imp_le)
  with hi have h: "y \<le> (2 ^ 255 - 1) * precisionReuse" by linarith
  from l h show ?thesis unfolding P by simp
qed

lemma go_bind_simps [simp]:
  "go_bind (Panic m) f = Panic m" "go_bind (Ret x) f = f x"
  by (simp_all add: go_bind_def)

lemma requiredFees_loop_Cons:
  "requiredFees_loop glDec (gp # gps) =
     go_bind (feeCoin glDec gp) (\<lambda>coin.
     go_bind (requiredFees_loop glDec gps) (\<lambda>coins. Ret (coin # coins)))"
  by (simp add: feeCoin_def go_bind_def split: go_result.splits)

lemma BitLen_255: "BitLen x > maxBitLen \<longleftrightarrow> 2 ^ 255 \<le> \<bar>x\<bar>"
  using BitLen_gt_iff [of 255 x] by (simp add: maxBitLen_def)

lemma BitLen_315: "BitLen x > maxBitLen + DecimalPrecisionBits \<longleftrightarrow> 2 ^ 315 \<le> \<bar>x\<bar>"
  using BitLen_gt_iff [of 315 x] by (simp add: maxBitLen_def DecimalPrecisionBits_def)

lemma Dec_Mul_NewDec:
  "Dec_Mul (Dec a) (NewDec g) = (if 2 ^ 315 \<le> \<bar>a * g\<bar> then Panic ''Int overflow'' else Ret (Dec (a * g)))"
proof -
  have "a * (g * precisionReuse) = (a * g) * precisionReuse" by simp
  then have "chopPrecisionAndRound (a * (g * precisionReuse)) = a * g"
    by (simp only: chop_exact)
  then show ?thesis
    by (simp add: Dec_Mul_def NewDec_def Let_def BitLen_315)
qed

lemma RoundInt_Ceil:
  "Dec_RoundInt (Dec_Ceil (Dec y)) =
     (if 2 ^ 255 \<le> \<bar>- ((- y) div precisionReuse)\<bar> then Panic ''NewIntFromBigInt() out of bound''
      else Ret (- ((- y) div precisionReuse)))"
proof -
  let ?c = "- ((- y) div precisionReuse)"
  have "Dec_Ceil (Dec y) = Dec (?c * precisionReuse)"
    by (simp only: Dec_Ceil_eq NewDec_def ceiling_divide_eq_div)
  then have "Dec_RoundInt (Dec_Ceil (Dec y)) = NewIntFromBigInt ?c"
    by (simp only: Dec_RoundInt_def Dec.sel chop_exact)
  then show ?thesis
    by (simp only: NewIntFromBigInt_def BitLen_255)
qed

lemma feeCoin_Ret_iff:
  "feeCoin (NewDec g) gp = Ret coin \<longleftrightarrow>
     ValidateDenom (DDenom gp) \<and> 0 \<le> fee_ceil gp g \<and> fee_ceil gp g < 2 ^ 255 \<and>
     coin = Coin (DDenom gp) (fee_ceil gp g)"
proof -
  obtain a where a: "DAmount gp = Dec a" by (cases "DAmount gp")
  let ?y = "a * g"
  let ?c = "- ((- ?y) div precisionReuse)"
  have c: "fee_ceil gp g = ?c" by (simp add: fee_ceil_int a)
  have r: "0 \<le> ?c \<Longrightarrow> ?c < 2 ^ 255 \<Longrightarrow> \<bar>?y\<bar> < 2 ^ 315"
    by (rule product_in_range)
  show ?thesis
    unfolding c feeCoin_def a Dec_Mul_NewDec
    using r by (auto simp: RoundInt_Ceil NewCoin_def split: if_splits)
qed

lemma requiredFees_loop_Ret_iff:
  "requiredFees_loop (NewDec g) minGasPrices = Ret required \<longleftrightarrow>
     (\<forall>gp \<in> set minGasPrices.
        ValidateDenom (DDenom gp) \<and> 0 \<le> fee_ceil gp g \<and> fee_ceil gp g < 2 ^ 255) \<and>
     required = map (\<lambda>gp. Coin (DDenom gp) (fee_ceil gp g)) minGasPrices"
proof (induction minGasPrices arbitrary: required)
  case Nil
  show ?case by auto
next
  case (Cons gp gps)
  show ?case
  proof (cases "feeCoin (NewDec g) gp")
    case (Panic m)
    then have "\<not> (ValidateDenom (DDenom gp) \<and> 0 \<le> fee_ceil gp g \<and> fee_ceil gp g < 2 ^ 255)"
      using feeCoin_Ret_iff [of g gp "Coin (DDenom gp) (fee_ceil gp g)"] by auto
    with Panic show ?thesis by (auto simp: requiredFees_loop_Cons simp del: requiredFees_loop.simps)
  next
    case (Ret coin)
    then have ok: "ValidateDenom (DDenom gp) \<and> 0 \<le> fee_ceil gp g \<and> fee_ceil gp g < 2 ^ 255"
      and coin: "coin = Coin (DDenom gp) (fee_ceil gp g)"
      using feeCoin_Ret_iff [of g gp coin] by auto
    show ?thesis
    proof (cases "requiredFees_loop (NewDec g) gps")
      case (Panic m)
      with Cons.IH [of "map (\<lambda>gp. Coin (DDenom gp) (fee_ceil gp g)) gps"]
      have "\<not> (\<forall>gp \<in> set gps.
        ValidateDenom (DDenom gp) \<and> 0 \<le> fee_ceil gp g \<and> fee_ceil gp g < 2 ^ 255)" by auto
      with Panic Ret show ?thesis by (auto simp: requiredFees_loop_Cons simp del: requiredFees_loop.simps)
    next
      case r: (Ret coins)
      with Cons.IH [of coins] Ret ok coin show ?thesis
        by (auto simp: requiredFees_loop_Cons simp del: requiredFees_loop.simps)
    qed
  qed
qed

text \<open>
  What the loop computes when it is run on a gas limit below \<open>2^63\<close>: it returns exactly
  when every denomination is valid and every amount \<open>ceil(rate * gas)\<close> lies in the range
  of a coin amount, from 0 up to \<open>2^255\<close>, and the required fees are then, in order, one
  coin \<open>(denomination, ceil(rate * gas))\<close> for each minimum gas price.
\<close>

lemma requiredFees_ceil:
  assumes "unat gas < 2 ^ 63"
  shows "requiredFees minGasPrices gas = Ret required \<longleftrightarrow>
     (\<forall>gp \<in> set minGasPrices.
        ValidateDenom (DDenom gp) \<and>
        0 \<le> \<lceil>Dec_value (DAmount gp) * of_nat (unat gas)\<rceil> \<and>
        \<lceil>Dec_value (DAmount gp) * of_nat (unat gas)\<rceil> < 2 ^ 255) \<and>
     required = map (\<lambda>gp. Coin (DDenom gp) \<lceil>Dec_value (DAmount gp) * of_nat (unat gas)\<rceil>)
                  minGasPrices"
proof -
  have "requiredFees minGasPrices gas = requiredFees_loop (NewDec (int (unat gas))) minGasPrices"
    by (simp add: requiredFees_def sint_gas [OF assms])
  then show ?thesis
    by (simp only: requiredFees_loop_Ret_iff fee_ceil_def of_int_of_nat_eq)
qed

lemma requiredFees_ceil_example:
  "unat (100 :: 64 word) < 2 ^ 63 \<and>
   requiredFees [DecCoin ''stake'' (Dec (10 ^ 17)), DecCoin ''uatom'' (Dec 25)] 100 =
     Ret [Coin ''stake'' 10, Coin ''uatom'' 1]"
proof -
  have g: "unat (100 :: 64 word) < 2 ^ 63" by simp
  have c1: "\<lceil>Dec_value (Dec (10 ^ 17)) * of_nat (unat (100 :: 64 word))\<rceil> = 10"
    by (simp add: Dec_value_def precisionReuse_def)
  have c2: "\<lceil>Dec_value (Dec 25) * of_nat (unat (100 :: 64 word))\<rceil> = 1"
    by (simp add: Dec_value_def precisionReuse_def ceiling_eq_iff)
  have v: "ValidateDenom ''stake''" "ValidateDenom ''uatom''"
    by (simp_all add: ValidateDenom_def is_letter_def is_denom_char_def)
  show ?thesis
    using requiredFees_ceil [OF g, of "[DecCoin ''stake'' (Dec (10 ^ 17)), DecCoin ''uatom'' (Dec 25)]"
        "[Coin ''stake'' 10, Coin ''uatom'' 1]"] g
    by (simp add: v Dec_value_def precisionReuse_def ceiling_eq_iff)
qed

text \<open>
  Claim C2, on one input. The store holds the minimum \<open>1 stake\<close> per unit of gas, the context
  is a CheckTx context, the run is no simulation, and the gas limit is \<open>2^63\<close>, so the
  required fee \<open>ceil(rate * gas)\<close> is \<open>2^63 stake\<close>. The decorator computes no required fee:
  it never hands the configured rate to the loop, and calls \<^verbatim>\<open>next\<close> on a transaction that
  declares no fee at all. The loop, run on the configured rate, does not return that
  amount either: the conversion of the gas limit to \<^verbatim>\<open>int64\<close> makes the multiplier
  \<open>- 2^63\<close>, and the coin constructor panics on the negative amount.
\<close>

theorem FeeParam_AnteHandle_required_fee_not_computed:
  "\<lceil>Dec_value (Dec (10 ^ 18)) * of_nat (unat (2 ^ 63 :: 64 word))\<rceil> = 2 ^ 63 \<and>
   FeeParamDecorator_AnteHandle
     (NewFeeParamDecorator (Some (tableParamStore
        [(ParamStoreKeyfee, VDecCoins [DecCoin ''stake'' (Dec (10 ^ 18))])])))
     checkCtx (sampleTx (2 ^ 63) [] [1]) False acceptAll ([] :: transfers) =
   acceptAll checkCtx (sampleTx (2 ^ 63) [] [1]) False [] \<and>
   requiredFees [DecCoin ''stake'' (Dec (10 ^ 18))] (2 ^ 63) \<noteq> Ret [Coin ''stake'' (2 ^ 63)] \<and>
   requiredFees [DecCoin ''stake'' (Dec (10 ^ 18))] (2 ^ 63) = Panic ''negative coin amount''"
proof -
  have loop: "requiredFees [DecCoin ''stake'' (Dec (10 ^ 18))] (2 ^ 63) = Panic ''negative coin amount''"
    by code_simp
  have c: "\<lceil>Dec_value (Dec (10 ^ 18)) * of_nat (unat (2 ^ 63 :: 64 word))\<rceil> = 2 ^ 63"
    by (simp add: Dec_value_def precisionReuse_def)
  have run: "FeeParamDecorator_AnteHandle
     (NewFeeParamDecorator (Some (tableParamStore
        [(ParamStoreKeyfee, VDecCoins [DecCoin ''stake'' (Dec (10 ^ 18))])])))
     checkCtx (sampleTx (2 ^ 63) [] [1]) False acceptAll ([] :: transfers) =
   acceptAll checkCtx (sampleTx (2 ^ 63) [] [1]) False []"
    by (simp add: FeeParamDecorator_AnteHandle_def NewFeeParamDecorator_def tableParamStore_def
          ParamStoreKeyfee_def checkCtx_def sampleTx_def minFeeCheck_def)
  from loop c run show ?thesis by simp
qed

end
